theory Spec2Isabelle
  imports Complex_Main "HOL-Library.AList"
begin

section \<open>JavaScript values\<close>

text \<open>
  The module \<^verbatim>\<open>lib/util/smart-app-context.js\<close> works on parsed lifecycle payloads: values
  built from \<^verbatim>\<open>undefined\<close>, \<^verbatim>\<open>null\<close>, booleans, numbers, strings, arrays and plain
  objects. An object is the ordered list of its own properties. \<open>JBuiltin k\<close> stands for
  the member named \<open>k\<close> that every plain object inherits from \<^verbatim>\<open>Object.prototype\<close>
  (\<^verbatim>\<open>({}).constructor\<close>, \<^verbatim>\<open>({}).toString\<close>, ...): the program reaches such a value only
  through the computed lookup \<^verbatim>\<open>this.config[name]\<close>.
\<close>

datatype jsnum = NaN | Infinity bool | Finite real

datatype jsval =
    JUndefined
  | JNull
  | JBool bool
  | JNum jsnum
  | JStr string
  | JArr "jsval list"
  | JObj "(string \<times> jsval) list"
  | JBuiltin string

text \<open>Every synchronous failure of the module is a \<^verbatim>\<open>TypeError\<close> of the language; a
  collaborator (formatter, remote service, context store) may fail with a reason of its own.\<close>

datatype error = TypeError | Thrown jsval

definition bind :: "error + 'a \<Rightarrow> ('a \<Rightarrow> error + 'b) \<Rightarrow> error + 'b" where
  "bind m f = (case m of Inl e \<Rightarrow> Inl e | Inr v \<Rightarrow> f v)"

text \<open>\<^verbatim>\<open>!v\<close> is \<open>\<not> truthy v\<close>.\<close>

fun truthy :: "jsval \<Rightarrow> bool" where
  "truthy JUndefined = False"
| "truthy JNull = False"
| "truthy (JBool b) = b"
| "truthy (JNum NaN) = False"
| "truthy (JNum (Infinity s)) = True"
| "truthy (JNum (Finite r)) = (r \<noteq> 0)"
| "truthy (JStr s) = (s \<noteq> [])"
| "truthy (JArr xs) = True"
| "truthy (JObj kvs) = True"
| "truthy (JBuiltin k) = True"

text \<open>\<^verbatim>\<open>a || b\<close> on values already read.\<close>

definition js_or :: "jsval \<Rightarrow> jsval \<Rightarrow> jsval" where
  "js_or a b = (if truthy a then a else b)"

text \<open>The own property names of \<^verbatim>\<open>Object.prototype\<close>, which every plain object inherits.\<close>

definition Object_prototype_names :: "string list" where
  "Object_prototype_names =
     [''constructor'', ''__defineGetter__'', ''__defineSetter__'', ''hasOwnProperty'',
      ''__lookupGetter__'', ''__lookupSetter__'', ''isPrototypeOf'', ''propertyIsEnumerable'',
      ''toString'', ''valueOf'', ''__proto__'', ''toLocaleString'']"

definition inherited :: "string \<Rightarrow> jsval" where
  "inherited k = (if k \<in> set Object_prototype_names then JBuiltin k else JUndefined)"

text \<open>Array and string indices: a property key that is a canonical decimal numeral.\<close>

definition digit :: "char \<Rightarrow> nat option" where
  "digit =
     map_of [(CHR ''0'', 0), (CHR ''1'', 1), (CHR ''2'', 2), (CHR ''3'', 3), (CHR ''4'', 4),
             (CHR ''5'', 5), (CHR ''6'', 6), (CHR ''7'', 7), (CHR ''8'', 8), (CHR ''9'', 9)]"

fun digits :: "nat \<Rightarrow> string \<Rightarrow> nat option" where
  "digits acc [] = Some acc"
| "digits acc (c # cs) =
     (case digit c of None \<Rightarrow> None | Some d \<Rightarrow> digits (10 * acc + d) cs)"

definition array_index :: "string \<Rightarrow> nat option" where
  "array_index k =
     (case k of
        [] \<Rightarrow> None
      | c # cs \<Rightarrow> if c = CHR ''0'' \<and> cs \<noteq> [] then None else digits 0 k)"

text \<open>
  Reading a property, \<^verbatim>\<open>v.k\<close> or \<^verbatim>\<open>v[k]\<close>. On \<^verbatim>\<open>undefined\<close> and \<^verbatim>\<open>null\<close> it throws a
  TypeError. A plain object yields its own property, else the inherited member, else
  \<^verbatim>\<open>undefined\<close>. Arrays and strings have their elements and \<^verbatim>\<open>length\<close> (a string is
  indexed by its characters). The methods that arrays, strings, numbers, booleans and
  functions inherit are not values of this model and read as \<^verbatim>\<open>undefined\<close>: none of the
  fixed names the program reads (the names of the payload schema and the index \<^verbatim>\<open>0\<close>) is
  such a method, and \<^verbatim>\<open>map\<close> and \<^verbatim>\<open>forEach\<close> are modelled where they are called. A
  computed key (\<^verbatim>\<open>this.config[name]\<close>, \<^verbatim>\<open>state.components[componentId]\<close>) is therefore
  read exactly from a plain object, which is what the properties below assume of the config
  map.
\<close>

fun get_prop :: "jsval \<Rightarrow> string \<Rightarrow> error + jsval" where
  "get_prop JUndefined k = Inl TypeError"
| "get_prop JNull k = Inl TypeError"
| "get_prop (JObj kvs) k =
     Inr (case map_of kvs k of Some v \<Rightarrow> v | None \<Rightarrow> inherited k)"
| "get_prop (JArr xs) k =
     Inr (case array_index k of
            Some i \<Rightarrow> if i < length xs then xs ! i else JUndefined
          | None \<Rightarrow> if k = ''length'' then JNum (Finite (real (length xs))) else JUndefined)"
| "get_prop (JStr s) k =
     Inr (case array_index k of
            Some i \<Rightarrow> if i < length s then JStr [s ! i] else JUndefined
          | None \<Rightarrow> if k = ''length'' then JNum (Finite (real (length s))) else JUndefined)"
| "get_prop (JBool b) k = Inr JUndefined"
| "get_prop (JNum n) k = Inr JUndefined"
| "get_prop (JBuiltin b) k = Inr JUndefined"

text \<open>A chain of reads \<^verbatim>\<open>v.a.b.c\<close>, failing at the first read from \<^verbatim>\<open>undefined\<close> or \<^verbatim>\<open>null\<close>.\<close>

primrec path :: "jsval \<Rightarrow> string list \<Rightarrow> error + jsval" where
  "path v [] = Inr v"
| "path v (k # ks) = bind (get_prop v k) (\<lambda>w. path w ks)"

text \<open>
  Assigning a property, \<^verbatim>\<open>v.k = w\<close>, returning the updated object. The module runs in
  strict mode, where assigning to a property of a primitive throws. The program assigns only
  to plain objects (the payload that carries \<^verbatim>\<open>lifecycle\<close>, an empty options object, an
  object literal it has just built).
\<close>

fun set_prop :: "jsval \<Rightarrow> string \<Rightarrow> jsval \<Rightarrow> error + jsval" where
  "set_prop (JObj kvs) k w = Inr (JObj (AList.update k w kvs))"
| "set_prop v k w = Inl TypeError"

section \<open>Collaborators\<close>

text \<open>The settlement of a promise.\<close>

datatype 'a outcome = Fulfilled 'a | Rejected error

text \<open>The context store of the application: \<^verbatim>\<open>get\<close> and \<^verbatim>\<open>delete\<close> by installedAppId.\<close>

record context_store =
  store_get :: "jsval \<Rightarrow> jsval outcome"
  store_delete :: "jsval \<Rightarrow> unit outcome"

text \<open>The settings of the owning application read by the context (\<^verbatim>\<open>app._clientId\<close>, ...).\<close>

record app =
  localizationEnabled :: bool
  clientId :: jsval
  clientSecret :: jsval
  log :: jsval
  apiUrl :: jsval
  refreshUrl :: jsval
  contextStore :: "context_store option"

text \<open>The mutex handed to the client: the shared one, or \<^verbatim>\<open>new Mutex()\<close>.\<close>

datatype mutex = Shared jsval | NewMutex

text \<open>The object literal passed to \<^verbatim>\<open>new SmartThingsApi({...})\<close>.\<close>

record api_options =
  opt_authToken :: jsval
  opt_refreshToken :: jsval
  opt_clientId :: jsval
  opt_clientSecret :: jsval
  opt_log :: jsval
  opt_apiUrl :: jsval
  opt_refreshUrl :: jsval
  opt_locationId :: jsval
  opt_installedAppId :: jsval
  opt_contextStore :: "context_store option"
  opt_apiMutex :: mutex

text \<open>
  The value of \<^verbatim>\<open>this.api\<close>: the empty object \<^verbatim>\<open>{}\<close> the constructor starts with, or a
  \<^verbatim>\<open>SmartThingsApi\<close>. Both may carry a \<^verbatim>\<open>locationId\<close> property; only the second has
  \<^verbatim>\<open>client\<close> and \<^verbatim>\<open>devices\<close>.
\<close>

record api_object =
  api_locationId :: jsval
  api_client :: "api_options option"

definition empty_object :: api_object where
  "empty_object = \<lparr>api_locationId = JUndefined, api_client = None\<rparr>"

text \<open>
  Modelled from the spec: the class \<^verbatim>\<open>SmartThingsApi\<close> of \<^verbatim>\<open>lib/api\<close> is not part of the
  sources at hand. The remote client is constructed with the options above, keeps them, and
  exposes the location it was given.
\<close>

definition new_SmartThingsApi :: "api_options \<Rightarrow> api_object" where
  "new_SmartThingsApi opts = \<lparr>api_locationId = opt_locationId opts, api_client = Some opts\<rparr>"

section \<open>The context\<close>

text \<open>The fields of a \<^verbatim>\<open>SmartAppContext\<close>; a field never assigned reads as \<^verbatim>\<open>undefined\<close>.\<close>

record smart_app_context =
  event :: jsval
  app :: app
  apiMutex :: jsval
  api :: api_object
  executionId :: jsval
  installedAppId :: jsval
  locationId :: jsval
  config :: jsval
  ctx_locale :: jsval
  headers :: jsval

text \<open>What the \<^verbatim>\<open>switch\<close> of the constructor assigns: the two local variables and the
  fields of \<^verbatim>\<open>this\<close>.\<close>

record assigned =
  a_authToken :: jsval
  a_refreshToken :: jsval
  a_executionId :: jsval
  a_installedAppId :: jsval
  a_locationId :: jsval
  a_config :: jsval
  a_locale :: jsval

text \<open>\<^verbatim>\<open>(data.client && data.client.language) || data.locale\<close>\<close>

definition client_locale :: "jsval \<Rightarrow> error + jsval" where
  "client_locale data =
     bind (get_prop data ''client'') (\<lambda>client.
     bind (if truthy client then get_prop client ''language'' else Inr client) (\<lambda>language.
     bind (get_prop data ''locale'') (\<lambda>loc.
     Inr (js_or language loc))))"

text \<open>\<^verbatim>\<open>const {messageType, lifecycle} = data\<close> and the value switched on,
  \<^verbatim>\<open>lifecycle || messageType\<close>.\<close>

definition discriminator :: "jsval \<Rightarrow> error + jsval" where
  "discriminator data =
     bind (get_prop data ''messageType'') (\<lambda>messageType.
     bind (get_prop data ''lifecycle'') (\<lambda>lifecycle.
     Inr (js_or lifecycle messageType)))"

definition case_EVENT :: "jsval \<Rightarrow> error + assigned" where
  "case_EVENT data =
     bind (path data [''eventData'', ''authToken'']) (\<lambda>authToken.
     bind (get_prop data ''executionId'') (\<lambda>execId.
     bind (path data [''eventData'', ''installedApp'', ''installedAppId'']) (\<lambda>appId.
     bind (path data [''eventData'', ''installedApp'', ''locationId'']) (\<lambda>locId.
     bind (path data [''eventData'', ''installedApp'', ''config'']) (\<lambda>cfg.
     bind (get_prop data ''locale'') (\<lambda>loc.
     Inr \<lparr>a_authToken = authToken, a_refreshToken = JUndefined,
          a_executionId = execId, a_installedAppId = appId, a_locationId = locId,
          a_config = cfg, a_locale = loc\<rparr>))))))"

definition case_INSTALL :: "jsval \<Rightarrow> error + assigned" where
  "case_INSTALL data =
     bind (path data [''installData'', ''authToken'']) (\<lambda>authToken.
     bind (path data [''installData'', ''refreshToken'']) (\<lambda>refreshToken.
     bind (get_prop data ''executionId'') (\<lambda>execId.
     bind (path data [''installData'', ''installedApp'', ''installedAppId'']) (\<lambda>appId.
     bind (path data [''installData'', ''installedApp'', ''locationId'']) (\<lambda>locId.
     bind (path data [''installData'', ''installedApp'', ''config'']) (\<lambda>cfg.
     bind (client_locale data) (\<lambda>loc.
     Inr \<lparr>a_authToken = authToken, a_refreshToken = refreshToken,
          a_executionId = execId, a_installedAppId = appId, a_locationId = locId,
          a_config = cfg, a_locale = loc\<rparr>)))))))"

text \<open>The UPDATE branch starts with \<^verbatim>\<open>data.client = undefined\<close>; every later read is from
  the payload so changed.\<close>

definition case_UPDATE_reads :: "jsval \<Rightarrow> error + assigned" where
  "case_UPDATE_reads data =
     bind (path data [''updateData'', ''authToken'']) (\<lambda>authToken.
     bind (path data [''updateData'', ''refreshToken'']) (\<lambda>refreshToken.
     bind (get_prop data ''executionId'') (\<lambda>execId.
     bind (path data [''updateData'', ''installedApp'', ''installedAppId'']) (\<lambda>appId.
     bind (path data [''updateData'', ''installedApp'', ''locationId'']) (\<lambda>locId.
     bind (path data [''updateData'', ''installedApp'', ''config'']) (\<lambda>cfg.
     bind (client_locale data) (\<lambda>loc.
     Inr \<lparr>a_authToken = authToken, a_refreshToken = refreshToken,
          a_executionId = execId, a_installedAppId = appId, a_locationId = locId,
          a_config = cfg, a_locale = loc\<rparr>)))))))"

definition case_CONFIGURATION :: "jsval \<Rightarrow> error + assigned" where
  "case_CONFIGURATION data =
     bind (get_prop data ''executionId'') (\<lambda>execId.
     bind (path data [''configurationData'', ''installedAppId'']) (\<lambda>appId.
     bind (path data [''configurationData'', ''locationId'']) (\<lambda>locId.
     bind (path data [''configurationData'', ''config'']) (\<lambda>cfg.
     bind (client_locale data) (\<lambda>loc.
     Inr \<lparr>a_authToken = JUndefined, a_refreshToken = JUndefined,
          a_executionId = execId, a_installedAppId = appId, a_locationId = locId,
          a_config = cfg, a_locale = loc\<rparr>)))))"

definition case_UNINSTALL :: "jsval \<Rightarrow> error + assigned" where
  "case_UNINSTALL data =
     bind (get_prop data ''executionId'') (\<lambda>execId.
     bind (path data [''uninstallData'', ''installedApp'', ''installedAppId'']) (\<lambda>appId.
     bind (path data [''uninstallData'', ''installedApp'', ''locationId'']) (\<lambda>locId.
     Inr \<lparr>a_authToken = JUndefined, a_refreshToken = JUndefined,
          a_executionId = execId, a_installedAppId = appId, a_locationId = locId,
          a_config = JUndefined, a_locale = JUndefined\<rparr>)))"

definition case_EXECUTE :: "jsval \<Rightarrow> error + assigned" where
  "case_EXECUTE data =
     bind (path data [''executeData'', ''authToken'']) (\<lambda>authToken.
     bind (get_prop data ''executionId'') (\<lambda>execId.
     bind (path data [''executeData'', ''installedApp'', ''installedAppId'']) (\<lambda>appId.
     bind (path data [''executeData'', ''installedApp'', ''locationId'']) (\<lambda>locId.
     bind (path data [''executeData'', ''installedApp'', ''config'']) (\<lambda>cfg.
     bind (path data [''executeData'', ''parameters'', ''locale'']) (\<lambda>loc.
     Inr \<lparr>a_authToken = authToken, a_refreshToken = JUndefined,
          a_executionId = execId, a_installedAppId = appId, a_locationId = locId,
          a_config = cfg, a_locale = loc\<rparr>))))))"

text \<open>The default branch, for proactive API calls not in response to a lifecycle event.\<close>

definition case_default :: "jsval \<Rightarrow> error + assigned" where
  "case_default data =
     bind (get_prop data ''authToken'') (\<lambda>authToken.
     bind (get_prop data ''refreshToken'') (\<lambda>refreshToken.
     bind (get_prop data ''installedAppId'') (\<lambda>appId.
     bind (get_prop data ''locationId'') (\<lambda>locId.
     bind (get_prop data ''config'') (\<lambda>cfg.
     bind (get_prop data ''locale'') (\<lambda>loc.
     Inr \<lparr>a_authToken = authToken, a_refreshToken = refreshToken,
          a_executionId = JStr [], a_installedAppId = appId, a_locationId = locId,
          a_config = cfg, a_locale = loc\<rparr>))))))"

text \<open>
  The \<^verbatim>\<open>switch\<close> statement. The cases compare with \<^verbatim>\<open>===\<close>, so only the strings match.
  The payload is passed by reference: the result carries the payload as the caller sees it
  afterwards, also when a read throws.
\<close>

definition switch_lifecycle :: "jsval \<Rightarrow> jsval \<times> (error + assigned)" where
  "switch_lifecycle data =
     (case discriminator data of
        Inl e \<Rightarrow> (data, Inl e)
      | Inr d \<Rightarrow>
          if d = JStr ''EVENT'' then (data, case_EVENT data)
          else if d = JStr ''INSTALL'' then (data, case_INSTALL data)
          else if d = JStr ''UPDATE'' then
            (case set_prop data ''client'' JUndefined of
               Inl e \<Rightarrow> (data, Inl e)
             | Inr data' \<Rightarrow> (data', case_UPDATE_reads data'))
          else if d = JStr ''CONFIGURATION'' then (data, case_CONFIGURATION data)
          else if d = JStr ''UNINSTALL'' then (data, case_UNINSTALL data)
          else if d = JStr ''EXECUTE'' then (data, case_EXECUTE data)
          else (data, case_default data))"

text \<open>The context after \<^verbatim>\<open>this.event\<close>, \<^verbatim>\<open>this.app\<close>, \<^verbatim>\<open>this.apiMutex\<close>,
  \<^verbatim>\<open>this.api = {}\<close> and the assignments of the switch.\<close>

definition assigned_context :: "app \<Rightarrow> jsval \<Rightarrow> jsval \<Rightarrow> assigned \<Rightarrow> smart_app_context" where
  "assigned_context ap data mtx a =
     \<lparr>event = data, app = ap, apiMutex = mtx, api = empty_object,
      executionId = a_executionId a, installedAppId = a_installedAppId a,
      locationId = a_locationId a, config = a_config a, ctx_locale = a_locale a,
      headers = JUndefined\<rparr>"

text \<open>
  \<^verbatim>\<open>if (app._localizationEnabled) { if (this.locale) { this.headers = ...; i18n.init(this) } }\<close>.
  The library \<^verbatim>\<open>i18n\<close> is a collaborator: \<open>i18n_init\<close> is what its \<^verbatim>\<open>init\<close> does to the
  context it is given.
\<close>

definition localize ::
  "(smart_app_context \<Rightarrow> smart_app_context) \<Rightarrow> smart_app_context \<Rightarrow> smart_app_context" where
  "localize i18n_init ctx =
     (if localizationEnabled (app ctx) then
        if truthy (ctx_locale ctx) then
          i18n_init (ctx\<lparr>headers := JObj [(''accept-language'', ctx_locale ctx)]\<rparr>)
        else ctx
      else ctx)"

text \<open>\<^verbatim>\<open>if (authToken) { this.api = new SmartThingsApi({...}) }\<close>\<close>

definition build_api :: "jsval \<Rightarrow> jsval \<Rightarrow> smart_app_context \<Rightarrow> smart_app_context" where
  "build_api authToken refreshToken ctx =
     (if truthy authToken then
        ctx\<lparr>api := new_SmartThingsApi
          \<lparr>opt_authToken = authToken, opt_refreshToken = refreshToken,
           opt_clientId = clientId (app ctx), opt_clientSecret = clientSecret (app ctx),
           opt_log = log (app ctx), opt_apiUrl = apiUrl (app ctx),
           opt_refreshUrl = refreshUrl (app ctx), opt_locationId = locationId ctx,
           opt_installedAppId = installedAppId ctx,
           opt_contextStore = contextStore (app ctx),
           opt_apiMutex = Shared (apiMutex ctx)\<rparr>\<rparr>
      else ctx)"

text \<open>The constructor \<^verbatim>\<open>new SmartAppContext(app, data, apiMutex)\<close>: the payload as it is
  afterwards, and the context or the error thrown.\<close>

definition SmartAppContext ::
  "(smart_app_context \<Rightarrow> smart_app_context) \<Rightarrow> app \<Rightarrow> jsval \<Rightarrow> jsval \<Rightarrow>
     jsval \<times> (error + smart_app_context)" where
  "SmartAppContext i18n_init ap data mtx =
     (case switch_lifecycle data of
        (data', r) \<Rightarrow>
          (data',
           bind r (\<lambda>a.
             Inr (build_api (a_authToken a) (a_refreshToken a)
                    (localize i18n_init (assigned_context ap data' mtx a))))))"

section \<open>Location and tokens\<close>

text \<open>\<^verbatim>\<open>setLocationId(id)\<close>: \<^verbatim>\<open>this.api\<close> is an object in every state, so the guard
  \<^verbatim>\<open>if (this.api)\<close> always passes.\<close>

definition setLocationId :: "smart_app_context \<Rightarrow> jsval \<Rightarrow> smart_app_context" where
  "setLocationId ctx ident =
     (let ctx1 = ctx\<lparr>locationId := ident\<rparr>
      in ctx1\<lparr>api := (api ctx1)\<lparr>api_locationId := ident\<rparr>\<rparr>)"

text \<open>
  \<^verbatim>\<open>async retrieveTokens()\<close>: the settlement of the promise it returns, carrying the
  context as it is afterwards. A throw inside an async function rejects its promise.
\<close>

definition retrieveTokens :: "smart_app_context \<Rightarrow> smart_app_context outcome" where
  "retrieveTokens ctx =
     (case contextStore (app ctx) of
        None \<Rightarrow> Fulfilled ctx
      | Some store \<Rightarrow>
          (case store_get store (installedAppId ctx) of
             Rejected e \<Rightarrow> Rejected e
           | Fulfilled data \<Rightarrow>
               if truthy data then
                 (case bind (get_prop data ''locationId'') (\<lambda>locId.
                       bind (get_prop data ''authToken'') (\<lambda>authToken.
                       bind (get_prop data ''refreshToken'') (\<lambda>refreshToken.
                       Inr (ctx\<lparr>locationId := locId,
                                api := new_SmartThingsApi
                                  \<lparr>opt_authToken = authToken, opt_refreshToken = refreshToken,
                                   opt_clientId = clientId (app ctx),
                                   opt_clientSecret = clientSecret (app ctx),
                                   opt_log = log (app ctx), opt_apiUrl = apiUrl (app ctx),
                                   opt_refreshUrl = refreshUrl (app ctx),
                                   opt_locationId = locId,
                                   opt_installedAppId = installedAppId ctx,
                                   opt_contextStore = contextStore (app ctx),
                                   opt_apiMutex =
                                     (if truthy (apiMutex ctx) then Shared (apiMutex ctx)
                                      else NewMutex)\<rparr>\<rparr>)))) of
                    Inl e \<Rightarrow> Rejected e
                  | Inr ctx' \<Rightarrow> Fulfilled ctx')
               else Fulfilled ctx))"

section \<open>Config accessors\<close>

text \<open>
  Every accessor starts with \<^verbatim>\<open>const entry = this.config[name]; if (!entry) return\<close>, and
  the scalar ones read \<^verbatim>\<open>entry[0].stringConfig.value\<close>.
\<close>

definition first_value :: "jsval \<Rightarrow> error + jsval" where
  "first_value entry = path entry [''0'', ''stringConfig'', ''value'']"

definition configStringValue :: "smart_app_context \<Rightarrow> string \<Rightarrow> error + jsval" where
  "configStringValue ctx name =
     bind (get_prop (config ctx) name) (\<lambda>entry.
     if \<not> truthy entry then Inr JUndefined
     else first_value entry)"

definition configBooleanValue :: "smart_app_context \<Rightarrow> string \<Rightarrow> error + bool" where
  "configBooleanValue ctx name =
     bind (get_prop (config ctx) name) (\<lambda>entry.
     if \<not> truthy entry then Inr False
     else bind (first_value entry) (\<lambda>v. Inr (v = JStr ''true'')))"

text \<open>\<open>toNumber\<close> is the coercion \<^verbatim>\<open>Number(v)\<close> of the language.\<close>

definition configNumberValue ::
  "(jsval \<Rightarrow> jsnum) \<Rightarrow> smart_app_context \<Rightarrow> string \<Rightarrow> error + jsval" where
  "configNumberValue toNumber ctx name =
     bind (get_prop (config ctx) name) (\<lambda>entry.
     if \<not> truthy entry then Inr JUndefined
     else bind (first_value entry) (\<lambda>v. Inr (JNum (toNumber v))))"

text \<open>
  A \<^verbatim>\<open>Date\<close> object: its time value in milliseconds, or the invalid date. \<^verbatim>\<open>new Date(v)\<close>
  is invalid for \<^verbatim>\<open>undefined\<close>; for every other value the outcome is the parser's,
  \<open>parseDate\<close>.
\<close>

datatype jsdate = InvalidDate | ValidDate int

definition new_Date :: "(jsval \<Rightarrow> jsdate) \<Rightarrow> jsval \<Rightarrow> jsdate" where
  "new_Date parseDate v = (if v = JUndefined then InvalidDate else parseDate v)"

text \<open>\<^verbatim>\<open>configDateValue\<close> returns \<^verbatim>\<open>undefined\<close> (\<open>None\<close>) or a \<^verbatim>\<open>Date\<close> object.\<close>

definition configDateValue ::
  "(jsval \<Rightarrow> jsdate) \<Rightarrow> smart_app_context \<Rightarrow> string \<Rightarrow> error + jsdate option" where
  "configDateValue parseDate ctx name =
     bind (get_prop (config ctx) name) (\<lambda>entry.
     if \<not> truthy entry then Inr None
     else bind (first_value entry) (\<lambda>v. Inr (Some (new_Date parseDate v))))"

text \<open>\<^verbatim>\<open>Object.entries(v).length === 0\<close>: throws on \<^verbatim>\<open>null\<close>; an object, an array and a
  string have one entry for each own property, element and character.\<close>

fun no_entries :: "jsval \<Rightarrow> error + bool" where
  "no_entries JUndefined = Inl TypeError"
| "no_entries JNull = Inl TypeError"
| "no_entries (JObj kvs) = Inr (kvs = [])"
| "no_entries (JArr xs) = Inr (xs = [])"
| "no_entries (JStr s) = Inr (s = [])"
| "no_entries v = Inr True"

text \<open>\<^verbatim>\<open>v.constructor === Object\<close>: the inherited \<^verbatim>\<open>constructor\<close> of a plain object.\<close>

definition constructor_is_Object :: "jsval \<Rightarrow> bool" where
  "constructor_is_Object v = (get_prop v ''constructor'' = Inr (JBuiltin ''constructor''))"

definition default_time_options :: jsval where
  "default_time_options = JObj [(''hour'', JStr ''2-digit''), (''minute'', JStr ''2-digit'')]"

text \<open>
  \<^verbatim>\<open>date.toLocaleTimeString(locale, options)\<close>: the string \<^verbatim>\<open>Invalid Date\<close> for the invalid
  date, else what the formatter of the platform returns or throws, \<open>formatTime\<close>.
\<close>

definition toLocaleTimeString ::
  "(jsval \<Rightarrow> jsval \<Rightarrow> int \<Rightarrow> error + string) \<Rightarrow> jsdate \<Rightarrow> jsval \<Rightarrow> jsval \<Rightarrow> error + jsval" where
  "toLocaleTimeString formatTime d loc options =
     (case d of
        InvalidDate \<Rightarrow> Inr (JStr ''Invalid Date'')
      | ValidDate t \<Rightarrow> bind (formatTime loc options t) (\<lambda>s. Inr (JStr s)))"

text \<open>
  \<^verbatim>\<open>configTimeString(name, options = {})\<close>. The options object is the caller's: the result
  is the argument as the caller sees it afterwards, and the value returned or the error
  thrown. An argument \<^verbatim>\<open>undefined\<close> is replaced by a fresh \<^verbatim>\<open>{}\<close>, which the caller
  never sees.
\<close>

definition configTimeString ::
  "(jsval \<Rightarrow> jsdate) \<Rightarrow> (jsval \<Rightarrow> jsval \<Rightarrow> int \<Rightarrow> error + string) \<Rightarrow>
     smart_app_context \<Rightarrow> string \<Rightarrow> jsval \<Rightarrow> jsval \<times> (error + jsval)" where
  "configTimeString parseDate formatTime ctx name options =
     (case configDateValue parseDate ctx name of
        Inl e \<Rightarrow> (options, Inl e)
      | Inr None \<Rightarrow> (options, Inr JUndefined)
      | Inr (Some d) \<Rightarrow>
          (let opts = (if options = JUndefined then JObj [] else options) in
           case no_entries opts of
             Inl e \<Rightarrow> (options, Inl e)
           | Inr emp \<Rightarrow>
               if emp \<and> constructor_is_Object opts then
                 (case bind (set_prop opts ''hour'' (JStr ''2-digit''))
                         (\<lambda>o1. set_prop o1 ''minute'' (JStr ''2-digit'')) of
                    Inl e \<Rightarrow> (options, Inl e)
                  | Inr opts' \<Rightarrow>
                      (if options = JUndefined then options else opts',
                       toLocaleTimeString formatTime d (ctx_locale ctx) opts'))
               else (options, toLocaleTimeString formatTime d (ctx_locale ctx) opts)))"

text \<open>A callback applied to the elements in order; the first throw ends the loop.\<close>

primrec map_e :: "('a \<Rightarrow> error + 'b) \<Rightarrow> 'a list \<Rightarrow> error + 'b list" where
  "map_e f [] = Inr []"
| "map_e f (x # xs) = bind (f x) (\<lambda>y. bind (map_e f xs) (\<lambda>ys. Inr (y # ys)))"

text \<open>\<^verbatim>\<open>entry.map(it => it.modeConfig.modeId)\<close>: only an array has a callable \<^verbatim>\<open>map\<close>.\<close>

definition configModeIds :: "smart_app_context \<Rightarrow> string \<Rightarrow> error + jsval" where
  "configModeIds ctx name =
     bind (get_prop (config ctx) name) (\<lambda>entry.
     if \<not> truthy entry then Inr JUndefined
     else (case entry of
             JArr items \<Rightarrow>
               bind (map_e (\<lambda>it. path it [''modeConfig'', ''modeId'']) items)
                 (\<lambda>ids. Inr (JArr ids))
           | _ \<Rightarrow> Inl TypeError))"

section \<open>Device enrichment\<close>

text \<open>
  \<^verbatim>\<open>Promise.all(list)\<close> is fulfilled with all the values, in the order of the list, when
  every promise of the list is fulfilled; otherwise it is rejected with the reason of
  whichever promise rejects first in time. The result lists the settlements it can have.
\<close>

primrec values_of :: "'a outcome list \<Rightarrow> 'a list" where
  "values_of [] = []"
| "values_of (p # ps) = (case p of Fulfilled v \<Rightarrow> v # values_of ps | Rejected e \<Rightarrow> values_of ps)"

primrec reasons_of :: "'a outcome list \<Rightarrow> error list" where
  "reasons_of [] = []"
| "reasons_of (p # ps) =
     (case p of Fulfilled v \<Rightarrow> reasons_of ps | Rejected e \<Rightarrow> e # reasons_of ps)"

definition Promise_all :: "'a outcome list \<Rightarrow> 'a list outcome list" where
  "Promise_all ps =
     (if reasons_of ps = [] then [Fulfilled (values_of ps)]
      else map Rejected (reasons_of ps))"

text \<open>A callback of \<^verbatim>\<open>then\<close> that throws rejects the promise.\<close>

definition settle :: "error + 'a \<Rightarrow> 'a outcome" where
  "settle r = (case r of Inl e \<Rightarrow> Rejected e | Inr v \<Rightarrow> Fulfilled v)"

text \<open>
  \<^verbatim>\<open>this.api.devices.get(deviceId).then(device => ({deviceId: device.deviceId, ...}))\<close>,
  where \<open>devices_get\<close> is the remote lookup of the device.
\<close>

definition device_promise ::
  "(jsval \<Rightarrow> jsval outcome) \<Rightarrow> jsval \<Rightarrow> jsval \<Rightarrow> jsval outcome" where
  "device_promise devices_get deviceId componentId =
     (case devices_get deviceId of
        Rejected e \<Rightarrow> Rejected e
      | Fulfilled device \<Rightarrow>
          settle
            (bind (get_prop device ''deviceId'') (\<lambda>d.
             bind (get_prop device ''name'') (\<lambda>n.
             bind (get_prop device ''label'') (\<lambda>l.
             Inr (JObj [(''deviceId'', d), (''name'', n), (''label'', l),
                        (''componentId'', componentId)]))))))"

text \<open>The property key of a computed lookup \<^verbatim>\<open>v[k]\<close>: the string itself, else the string
  the value converts to (\<open>toString\<close> for numbers, arrays and objects).\<close>

definition property_key :: "(jsval \<Rightarrow> string) \<Rightarrow> jsval \<Rightarrow> string" where
  "property_key toString k =
     (case k of
        JStr s \<Rightarrow> s
      | JUndefined \<Rightarrow> ''undefined''
      | JNull \<Rightarrow> ''null''
      | JBool b \<Rightarrow> if b then ''true'' else ''false''
      | _ \<Rightarrow> toString k)"

text \<open>
  The second stage of \<^verbatim>\<open>configDevicesWithState\<close>:
  \<^verbatim>\<open>.then(entry => this.api.devices.getState(entry.deviceId).then(state => {
     entry.state = state.components[componentId]; return entry }))\<close>.
\<close>

definition device_state_promise ::
  "(jsval \<Rightarrow> jsval outcome) \<Rightarrow> (jsval \<Rightarrow> jsval outcome) \<Rightarrow> (jsval \<Rightarrow> string) \<Rightarrow>
     jsval \<Rightarrow> jsval \<Rightarrow> jsval outcome" where
  "device_state_promise devices_get devices_getState toString deviceId componentId =
     (case device_promise devices_get deviceId componentId of
        Rejected e \<Rightarrow> Rejected e
      | Fulfilled entry \<Rightarrow>
          (case get_prop entry ''deviceId'' of
             Inl e \<Rightarrow> Rejected e
           | Inr d \<Rightarrow>
               (case devices_getState d of
                  Rejected e \<Rightarrow> Rejected e
                | Fulfilled state \<Rightarrow>
                    settle
                      (bind (get_prop state ''components'') (\<lambda>components.
                       bind (get_prop components (property_key toString componentId)) (\<lambda>st.
                       set_prop entry ''state'' st))))))"

text \<open>
  The body of the \<^verbatim>\<open>forEach\<close> callback up to the call of the remote lookup:
  \<^verbatim>\<open>const {componentId} = item.deviceConfig\<close>, then \<^verbatim>\<open>this.api.devices.get\<close>, which does
  not exist on the empty \<^verbatim>\<open>{}\<close> of an unauthenticated context, then the argument
  \<^verbatim>\<open>item.deviceConfig.deviceId\<close>. It yields the promise that is pushed on the list.
\<close>

definition for_item ::
  "smart_app_context \<Rightarrow> (jsval \<Rightarrow> jsval \<Rightarrow> jsval outcome) \<Rightarrow> jsval \<Rightarrow> error + jsval outcome" where
  "for_item ctx lookup item =
     bind (get_prop item ''deviceConfig'') (\<lambda>deviceConfig.
     bind (get_prop deviceConfig ''componentId'') (\<lambda>componentId.
     (case api_client (api ctx) of
        None \<Rightarrow> Inl TypeError
      | Some client \<Rightarrow>
          bind (path item [''deviceConfig'', ''deviceId'']) (\<lambda>deviceId.
          Inr (lookup deviceId componentId)))))"

text \<open>
  \<^verbatim>\<open>configDevices(name)\<close>: \<^verbatim>\<open>entry.forEach(item => {...})\<close> pushes one promise for each
  item, then \<^verbatim>\<open>return Promise.all(list)\<close>; only an array has a callable \<^verbatim>\<open>forEach\<close>. The
  result is the error thrown, or \<^verbatim>\<open>undefined\<close> (\<open>None\<close>), or the promise, given by the
  settlements it can have.
\<close>

definition configDevices ::
  "(jsval \<Rightarrow> jsval outcome) \<Rightarrow> smart_app_context \<Rightarrow> string \<Rightarrow>
     error + jsval list outcome list option" where
  "configDevices devices_get ctx name =
     bind (get_prop (config ctx) name) (\<lambda>entry.
     if \<not> truthy entry then Inr None
     else (case entry of
             JArr items \<Rightarrow>
               bind (map_e (for_item ctx (device_promise devices_get)) items)
                 (\<lambda>list. Inr (Some (Promise_all list)))
           | _ \<Rightarrow> Inl TypeError))"

definition configDevicesWithState ::
  "(jsval \<Rightarrow> jsval outcome) \<Rightarrow> (jsval \<Rightarrow> jsval outcome) \<Rightarrow> (jsval \<Rightarrow> string) \<Rightarrow>
     smart_app_context \<Rightarrow> string \<Rightarrow> error + jsval list outcome list option" where
  "configDevicesWithState devices_get devices_getState toString ctx name =
     bind (get_prop (config ctx) name) (\<lambda>entry.
     if \<not> truthy entry then Inr None
     else (case entry of
             JArr items \<Rightarrow>
               bind (map_e (for_item ctx
                       (device_state_promise devices_get devices_getState toString)) items)
                 (\<lambda>list. Inr (Some (Promise_all list)))
           | _ \<Rightarrow> Inl TypeError))"

section \<open>Example inputs\<close>

text \<open>An application without localization and without a context store.\<close>

definition plain_app :: app where
  "plain_app =
     \<lparr>localizationEnabled = False, clientId = JStr ''id'', clientSecret = JStr ''secret'',
      log = JUndefined, apiUrl = JUndefined, refreshUrl = JUndefined, contextStore = None\<rparr>"

text \<open>An unauthenticated context of that application holding a given config map.\<close>

definition context_with :: "jsval \<Rightarrow> smart_app_context" where
  "context_with cfg =
     \<lparr>event = JObj [], app = plain_app, apiMutex = JUndefined, api = empty_object,
      executionId = JStr [], installedAppId = JStr ''app-1'', locationId = JStr ''loc-1'',
      config = cfg, ctx_locale = JStr ''en'', headers = JUndefined\<rparr>"

text \<open>A config map with one string setting, as the platform sends it.\<close>

definition string_config :: "string \<Rightarrow> jsval" where
  "string_config s =
     JObj [(''setting'', JArr [JObj [(''stringConfig'', JObj [(''value'', JStr s)])]])]"

text \<open>The same context after \<^verbatim>\<open>new SmartThingsApi\<close> has been built from a token.\<close>

definition authenticated_with :: "jsval \<Rightarrow> smart_app_context" where
  "authenticated_with cfg = build_api (JStr ''token'') JUndefined (context_with cfg)"

text \<open>An UNINSTALL payload, and the context the constructor builds from it.\<close>

definition uninstall_payload :: jsval where
  "uninstall_payload =
     JObj [(''lifecycle'', JStr ''UNINSTALL''), (''executionId'', JStr ''e-1''),
           (''uninstallData'',
             JObj [(''installedApp'',
               JObj [(''installedAppId'', JStr ''app-1''), (''locationId'', JStr ''loc-1'')])])]"

definition uninstall_context :: smart_app_context where
  "uninstall_context =
     \<lparr>event = uninstall_payload, app = plain_app, apiMutex = JUndefined, api = empty_object,
      executionId = JStr ''e-1'', installedAppId = JStr ''app-1'', locationId = JStr ''loc-1'',
      config = JUndefined, ctx_locale = JUndefined, headers = JUndefined\<rparr>"

text \<open>An UPDATE payload sent by a client whose language differs from the locale of the
  payload.\<close>

definition update_payload :: jsval where
  "update_payload =
     JObj [(''lifecycle'', JStr ''UPDATE''), (''executionId'', JStr ''e-2''),
           (''locale'', JStr ''en''),
           (''client'', JObj [(''os'', JStr ''ios''), (''language'', JStr ''fr'')]),
           (''updateData'',
             JObj [(''authToken'', JStr ''token''), (''refreshToken'', JStr ''refresh''),
                   (''installedApp'',
                     JObj [(''installedAppId'', JStr ''app-1''), (''locationId'', JStr ''loc-1''),
                           (''config'', JObj [])])])]"

text \<open>A payload for a proactive call: no lifecycle, the fields at the root.\<close>

definition proactive_payload :: jsval where
  "proactive_payload =
     JObj [(''authToken'', JStr ''token''), (''refreshToken'', JStr ''refresh''),
           (''installedAppId'', JStr ''app-1''), (''locationId'', JStr ''loc-1''),
           (''config'', string_config ''true''), (''locale'', JStr ''de'')]"

text \<open>A payload with a lifecycle the switch does not know.\<close>

definition ping_payload :: jsval where
  "ping_payload = JObj [(''lifecycle'', JStr ''PING''), (''installedAppId'', JStr ''app-1'')]"

text \<open>A context store that holds nothing, and an application that uses it.\<close>

definition nothing_stored :: "jsval \<Rightarrow> jsval outcome" where
  "nothing_stored ident = Fulfilled JUndefined"

definition nothing_deleted :: "jsval \<Rightarrow> unit outcome" where
  "nothing_deleted ident = Fulfilled ()"

definition empty_store :: context_store where
  "empty_store = \<lparr>store_get = nothing_stored, store_delete = nothing_deleted\<rparr>"

definition stored_context :: smart_app_context where
  "stored_context = (context_with JUndefined)\<lparr>app := plain_app\<lparr>contextStore := Some empty_store\<rparr>\<rparr>"

text \<open>A number coercion and a date parser that accept no string, a date parser that reads
  every string as the epoch, and a formatter that prints seconds unless it is given the
  default options.\<close>

definition not_a_number :: "jsval \<Rightarrow> jsnum" where
  "not_a_number v = NaN"

definition no_date :: "jsval \<Rightarrow> jsdate" where
  "no_date v = InvalidDate"

definition epoch_date :: "jsval \<Rightarrow> jsdate" where
  "epoch_date v = ValidDate 0"

definition clock_format :: "jsval \<Rightarrow> jsval \<Rightarrow> int \<Rightarrow> error + string" where
  "clock_format loc options t =
     (if options = default_time_options then Inr ''12:00 AM'' else Inr ''12:00:00 AM'')"

text \<open>Two configured devices; a device service that knows only the first, one that knows
  both, and a state service that is down.\<close>

definition device_config :: jsval where
  "device_config =
     JObj [(''sensors'',
       JArr [JObj [(''deviceConfig'',
               JObj [(''deviceId'', JStr ''d1''), (''componentId'', JStr ''main'')])],
             JObj [(''deviceConfig'',
               JObj [(''deviceId'', JStr ''d2''), (''componentId'', JStr ''main'')])]])]"

definition device_named :: "jsval \<Rightarrow> jsval" where
  "device_named ident =
     JObj [(''deviceId'', ident), (''name'', JStr ''sensor''), (''label'', JStr ''Sensor'')]"

definition knows_first :: "jsval \<Rightarrow> jsval outcome" where
  "knows_first ident =
     (if ident = JStr ''d1'' then Fulfilled (device_named ident)
      else Rejected (Thrown (JStr ''404'')))"

definition knows_all :: "jsval \<Rightarrow> jsval outcome" where
  "knows_all ident = Fulfilled (device_named ident)"

definition state_down :: "jsval \<Rightarrow> jsval outcome" where
  "state_down ident = Rejected (Thrown (JStr ''503''))"

definition no_string :: "jsval \<Rightarrow> string" where
  "no_string v = []"

section \<open>The result of an aggregate call\<close>

text \<open>An aggregate call fails as a whole when it throws, or returns a promise that has
  some settlement and no settlement other than a rejection.\<close>

primrec all_rejected :: "'a outcome list \<Rightarrow> bool" where
  "all_rejected [] = True"
| "all_rejected (p # ps) = (case p of Fulfilled v \<Rightarrow> False | Rejected e \<Rightarrow> all_rejected ps)"

definition fails_entirely :: "error + 'a outcome list option \<Rightarrow> bool" where
  "fails_entirely r =
     (case r of
        Inl e \<Rightarrow> True
      | Inr None \<Rightarrow> False
      | Inr (Some outs) \<Rightarrow> outs \<noteq> [] \<and> all_rejected outs)"

section \<open>Properties\<close>

subsection \<open>Reading and sequencing\<close>

lemma bind_Inl [simp]: "bind (Inl e) f = Inl e"
  by (simp add: bind_def)

lemma bind_Inr [simp]: "bind (Inr v) f = f v"
  by (simp add: bind_def)

lemma bind_eq_Inr: "bind m f = Inr y \<longleftrightarrow> (\<exists>v. m = Inr v \<and> f v = Inr y)"
  by (cases m) simp_all

lemma get_prop_total: "get_prop v k = Inr w \<Longrightarrow> \<exists>w'. get_prop v k' = Inr w'"
  by (cases v) simp_all

lemma get_prop_absent:
  "map_of kvs name = None \<Longrightarrow> name \<notin> set Object_prototype_names \<Longrightarrow>
     get_prop (JObj kvs) name = Inr JUndefined"
  by (simp add: inherited_def)

lemma first_value_truthy: "first_value entry = Inr v \<Longrightarrow> truthy entry"
  by (cases entry rule: truthy.cases)
     (auto simp: first_value_def array_index_def digit_def)

lemma first_value_string_config:
  "first_value (JArr [JObj [(''stringConfig'', JObj [(''value'', v)])]]) = Inr v"
  by (simp add: first_value_def array_index_def digit_def)

lemma map_e_Inr_member:
  "map_e f xs = Inr ys \<Longrightarrow> x \<in> set xs \<Longrightarrow> \<exists>y. y \<in> set ys \<and> f x = Inr y"
proof (induction xs arbitrary: ys)
  case Nil
  then show ?case by simp
next
  case (Cons a xs)
  from Cons.prems(1) obtain y ys' where
    head: "f a = Inr y" and rest: "map_e f xs = Inr ys'" and ys: "ys = y # ys'"
    by (auto simp: bind_eq_Inr)
  show ?case
  proof (cases "x = a")
    case True
    with head ys show ?thesis by auto
  next
    case False
    with Cons.prems(2) have "x \<in> set xs" by simp
    from Cons.IH [OF rest this] ys show ?thesis by auto
  qed
qed

subsection \<open>The lifecycle switch\<close>

lemma switch_default:
  assumes "discriminator data = Inr d"
    and "d \<notin> {JStr ''EVENT'', JStr ''INSTALL'', JStr ''UPDATE'', JStr ''CONFIGURATION'',
               JStr ''UNINSTALL'', JStr ''EXECUTE''}"
  shows "switch_lifecycle data = (data, case_default data)"
  using assms by (simp add: switch_lifecycle_def)

text \<open>
  Claim C6. For a payload whose discriminator \<^verbatim>\<open>lifecycle || messageType\<close> is none of the
  six lifecycle names, the constructor does not throw and leaves the payload as it was;
  \<^verbatim>\<open>authToken\<close>, \<^verbatim>\<open>refreshToken\<close>, \<^verbatim>\<open>installedAppId\<close>, \<^verbatim>\<open>locationId\<close>, \<^verbatim>\<open>config\<close> and
  \<^verbatim>\<open>locale\<close> are the root-level properties of the payload, and \<^verbatim>\<open>executionId\<close> is the
  empty string. The context is the one assigned from these, localized and given its client.
\<close>

theorem default_branch_reads_root:
  assumes "discriminator data = Inr d"
    and "d \<notin> {JStr ''EVENT'', JStr ''INSTALL'', JStr ''UPDATE'', JStr ''CONFIGURATION'',
               JStr ''UNINSTALL'', JStr ''EXECUTE''}"
  shows "\<exists>authToken refreshToken appId locId cfg loc.
      get_prop data ''authToken'' = Inr authToken
    \<and> get_prop data ''refreshToken'' = Inr refreshToken
    \<and> get_prop data ''installedAppId'' = Inr appId
    \<and> get_prop data ''locationId'' = Inr locId
    \<and> get_prop data ''config'' = Inr cfg
    \<and> get_prop data ''locale'' = Inr loc
    \<and> SmartAppContext i18n_init ap data mtx
        = (data,
           Inr (build_api authToken refreshToken
                  (localize i18n_init
                     \<lparr>event = data, app = ap, apiMutex = mtx, api = empty_object,
                      executionId = JStr [], installedAppId = appId, locationId = locId,
                      config = cfg, ctx_locale = loc, headers = JUndefined\<rparr>)))"
proof -
  obtain w where w: "get_prop data ''messageType'' = Inr w"
    using assms(1) by (auto simp: discriminator_def bind_eq_Inr)
  obtain authToken refreshToken appId locId cfg loc where reads:
    "get_prop data ''authToken'' = Inr authToken"
    "get_prop data ''refreshToken'' = Inr refreshToken"
    "get_prop data ''installedAppId'' = Inr appId"
    "get_prop data ''locationId'' = Inr locId"
    "get_prop data ''config'' = Inr cfg"
    "get_prop data ''locale'' = Inr loc"
    using get_prop_total [OF w] by metis
  have "SmartAppContext i18n_init ap data mtx
        = (data,
           Inr (build_api authToken refreshToken
                  (localize i18n_init
                     \<lparr>event = data, app = ap, apiMutex = mtx, api = empty_object,
                      executionId = JStr [], installedAppId = appId, locationId = locId,
                      config = cfg, ctx_locale = loc, headers = JUndefined\<rparr>)))"
    by (simp add: SmartAppContext_def switch_default [OF assms] case_default_def reads
        assigned_context_def)
  with reads show ?thesis by blast
qed

text \<open>A payload without \<^verbatim>\<open>lifecycle\<close> and \<^verbatim>\<open>messageType\<close>, and one with an unknown
  lifecycle and no token.\<close>

theorem default_branch_reads_root_witness:
  "SmartAppContext id plain_app proactive_payload JUndefined
     = (proactive_payload,
        Inr \<lparr>event = proactive_payload, app = plain_app, apiMutex = JUndefined,
             api = new_SmartThingsApi
               \<lparr>opt_authToken = JStr ''token'', opt_refreshToken = JStr ''refresh'',
                opt_clientId = JStr ''id'', opt_clientSecret = JStr ''secret'',
                opt_log = JUndefined, opt_apiUrl = JUndefined, opt_refreshUrl = JUndefined,
                opt_locationId = JStr ''loc-1'', opt_installedAppId = JStr ''app-1'',
                opt_contextStore = None, opt_apiMutex = Shared JUndefined\<rparr>,
             executionId = JStr [], installedAppId = JStr ''app-1'',
             locationId = JStr ''loc-1'', config = string_config ''true'',
             ctx_locale = JStr ''de'', headers = JUndefined\<rparr>)
   \<and> SmartAppContext id plain_app ping_payload JUndefined
     = (ping_payload,
        Inr \<lparr>event = ping_payload, app = plain_app, apiMutex = JUndefined,
             api = empty_object, executionId = JStr [], installedAppId = JStr ''app-1'',
             locationId = JUndefined, config = JUndefined, ctx_locale = JUndefined,
             headers = JUndefined\<rparr>)"
  using default_branch_reads_root
      [where data = proactive_payload and d = JUndefined and ?i18n_init = id
      and ap = plain_app and mtx = JUndefined]
    default_branch_reads_root
      [where data = ping_payload and d = "JStr ''PING''" and ?i18n_init = id
      and ap = plain_app and mtx = JUndefined]
  by (simp add: proactive_payload_def ping_payload_def discriminator_def js_or_def
      inherited_def Object_prototype_names_def build_api_def localize_def plain_app_def)

text \<open>The branches that keep the client use its language when it has one.\<close>

lemma client_locale_prefers_language:
  assumes "get_prop data ''client'' = Inr client" and "truthy client"
    and "get_prop client ''language'' = Inr language" and "truthy language"
  shows "client_locale data = Inr language"
proof -
  obtain loc where "get_prop data ''locale'' = Inr loc"
    using get_prop_total [OF assms(1)] by blast
  then show ?thesis
    using assms by (simp add: client_locale_def js_or_def)
qed

text \<open>Once the client is cleared, the same expression yields the root locale, whatever the
  client was.\<close>

lemma client_locale_cleared:
  "\<exists>loc. get_prop (JObj kvs) ''locale'' = Inr loc
     \<and> client_locale (JObj (AList.update ''client'' JUndefined kvs)) = Inr loc"
  by (simp add: client_locale_def js_or_def update_conv')

text \<open>
  Claim C2 asks that an UPDATE payload take its locale from \<^verbatim>\<open>client.language\<close> when that
  is present. The branch clears \<^verbatim>\<open>data.client\<close> before it reads it, so the language of the
  client is never used: for a payload whose client speaks \<^verbatim>\<open>fr\<close> and whose root locale is
  \<^verbatim>\<open>en\<close>, the context gets \<^verbatim>\<open>en\<close>.
\<close>

theorem update_locale_ignores_client_language:
  "path update_payload [''client'', ''language''] = Inr (JStr ''fr'')
   \<and> map_sum id ctx_locale (snd (SmartAppContext id plain_app update_payload JUndefined))
       = Inr (JStr ''en'')"
  by (simp add: SmartAppContext_def switch_lifecycle_def discriminator_def update_payload_def
      js_or_def case_UPDATE_reads_def client_locale_def assigned_context_def localize_def
      build_api_def plain_app_def)

lemma UPDATE_is_object:
  assumes "discriminator data = Inr (JStr ''UPDATE'')"
  shows "\<exists>kvs. data = JObj kvs"
  using assms
  by (cases data)
     (simp_all add: discriminator_def js_or_def array_index_def digit_def split: if_splits)

lemma switch_UPDATE:
  "discriminator (JObj kvs) = Inr (JStr ''UPDATE'') \<Longrightarrow>
     switch_lifecycle (JObj kvs)
       = (JObj (AList.update ''client'' JUndefined kvs),
          case_UPDATE_reads (JObj (AList.update ''client'' JUndefined kvs)))"
  by (simp add: switch_lifecycle_def)

lemma fst_SmartAppContext:
  "fst (SmartAppContext i18n_init ap data mtx) = fst (switch_lifecycle data)"
  by (simp add: SmartAppContext_def split: prod.splits)

text \<open>
  Claim C9. Constructing a context from an UPDATE payload changes the payload of the caller:
  afterwards its \<^verbatim>\<open>client\<close> property reads \<^verbatim>\<open>undefined\<close>, whether the constructor returns
  or throws, and every other property reads as before.
\<close>

theorem update_clears_client:
  assumes "discriminator data = Inr (JStr ''UPDATE'')"
  shows "get_prop (fst (SmartAppContext i18n_init ap data mtx)) ''client'' = Inr JUndefined
    \<and> (\<forall>k. k \<noteq> ''client'' \<longrightarrow>
          get_prop (fst (SmartAppContext i18n_init ap data mtx)) k = get_prop data k)"
proof -
  obtain kvs where obj: "data = JObj kvs"
    using assms UPDATE_is_object by blast
  have after: "fst (SmartAppContext i18n_init ap (JObj kvs) mtx)
                 = JObj (AList.update ''client'' JUndefined kvs)"
    using assms unfolding obj by (simp add: fst_SmartAppContext switch_UPDATE)
  show ?thesis
    unfolding obj after by (simp add: update_conv')
qed

text \<open>The payload had a client before the call and has none after it.\<close>

theorem update_clears_client_witness:
  "get_prop update_payload ''client''
     = Inr (JObj [(''os'', JStr ''ios''), (''language'', JStr ''fr'')])
   \<and> get_prop (fst (SmartAppContext id plain_app update_payload JUndefined)) ''client''
     = Inr JUndefined
   \<and> get_prop (fst (SmartAppContext id plain_app update_payload JUndefined)) ''locale''
     = Inr (JStr ''en'')"
  using update_clears_client [where data = update_payload and ?i18n_init = id and ap = plain_app
      and mtx = JUndefined]
  by (simp add: update_payload_def discriminator_def js_or_def)

subsection \<open>Location and tokens\<close>

text \<open>
  Claim C5. After \<^verbatim>\<open>setLocationId(id)\<close> the \<^verbatim>\<open>locationId\<close> of the context is \<^verbatim>\<open>id\<close> and the
  \<^verbatim>\<open>locationId\<close> of \<^verbatim>\<open>this.api\<close> is \<^verbatim>\<open>id\<close> as well, whether or not a remote client has
  been built: the two copies agree.
\<close>

theorem setLocationId_both_copies:
  "locationId (setLocationId ctx ident) = ident
   \<and> api_locationId (api (setLocationId ctx ident)) = ident"
  by (simp add: setLocationId_def)

text \<open>
  Claim C8. When the application has no context store, or the store resolves to a falsy
  value for the \<^verbatim>\<open>installedAppId\<close> of the context, \<^verbatim>\<open>retrieveTokens()\<close> resolves to the
  context with every field as it was.
\<close>

theorem retrieveTokens_unchanged:
  assumes "contextStore (app ctx) = None
     \<or> (\<exists>store d. contextStore (app ctx) = Some store
            \<and> store_get store (installedAppId ctx) = Fulfilled d \<and> \<not> truthy d)"
  shows "retrieveTokens ctx = Fulfilled ctx"
  using assms by (auto simp: retrieveTokens_def)

text \<open>An application without a store, and one whose store holds nothing.\<close>

theorem retrieveTokens_unchanged_witness:
  "retrieveTokens (context_with JUndefined) = Fulfilled (context_with JUndefined)
   \<and> retrieveTokens stored_context = Fulfilled stored_context"
  using retrieveTokens_unchanged [of "context_with JUndefined"]
    retrieveTokens_unchanged [of stored_context]
  by (simp add: context_with_def plain_app_def stored_context_def empty_store_def
      nothing_stored_def)

subsection \<open>Config accessors\<close>

text \<open>
  The context built from an UNINSTALL payload has no config map: the branch assigns none.
  On it \<^verbatim>\<open>this.config[name]\<close> reads a property of \<^verbatim>\<open>undefined\<close>, and every accessor
  throws a TypeError instead of returning \<^verbatim>\<open>undefined\<close> or \<^verbatim>\<open>false\<close>.
\<close>

theorem accessors_missing_config_throw:
  "SmartAppContext id plain_app uninstall_payload JUndefined
     = (uninstall_payload, Inr uninstall_context)
   \<and> config uninstall_context = JUndefined
   \<and> configStringValue uninstall_context ''setting'' = Inl TypeError
   \<and> configBooleanValue uninstall_context ''setting'' = Inl TypeError
   \<and> configNumberValue not_a_number uninstall_context ''setting'' = Inl TypeError
   \<and> configDateValue no_date uninstall_context ''setting'' = Inl TypeError
   \<and> configTimeString no_date clock_format uninstall_context ''setting'' JUndefined
       = (JUndefined, Inl TypeError)
   \<and> configModeIds uninstall_context ''setting'' = Inl TypeError
   \<and> configDevices knows_all uninstall_context ''setting'' = Inl TypeError
   \<and> configDevicesWithState knows_all state_down no_string uninstall_context ''setting''
       = Inl TypeError"
  by (simp add: SmartAppContext_def switch_lifecycle_def discriminator_def uninstall_payload_def
      js_or_def case_UNINSTALL_def assigned_context_def localize_def build_api_def plain_app_def
      uninstall_context_def configStringValue_def configBooleanValue_def configNumberValue_def
      configDateValue_def configTimeString_def configModeIds_def configDevices_def
      configDevicesWithState_def)

text \<open>
  Claim C1, as the code has it. When the config map is present (a plain object) and the
  named key is absent from it, being neither an own key nor the name of a member every
  object inherits, each of the eight accessors returns \<^verbatim>\<open>undefined\<close> (\<^verbatim>\<open>false\<close> for
  \<^verbatim>\<open>configBooleanValue\<close>) and does not throw; \<^verbatim>\<open>configTimeString\<close> leaves its options
  argument as it was.
\<close>

theorem accessors_absent_key:
  assumes "config ctx = JObj kvs" and "map_of kvs name = None"
    and "name \<notin> set Object_prototype_names"
  shows "configStringValue ctx name = Inr JUndefined
    \<and> configBooleanValue ctx name = Inr False
    \<and> configNumberValue toNumber ctx name = Inr JUndefined
    \<and> configDateValue parseDate ctx name = Inr None
    \<and> configTimeString parseDate formatTime ctx name options = (options, Inr JUndefined)
    \<and> configModeIds ctx name = Inr JUndefined
    \<and> configDevices devices_get ctx name = Inr None
    \<and> configDevicesWithState devices_get devices_getState toString ctx name = Inr None"
proof -
  have absent: "get_prop (config ctx) name = Inr JUndefined"
    using assms get_prop_absent [of kvs name] by simp
  have date: "configDateValue parseDate ctx name = Inr None"
    by (simp add: configDateValue_def absent)
  show ?thesis
    by (simp add: configStringValue_def configBooleanValue_def configNumberValue_def date
        configTimeString_def configModeIds_def configDevices_def configDevicesWithState_def absent)
qed

text \<open>The key \<^verbatim>\<open>other\<close> is absent from a config map that holds \<^verbatim>\<open>setting\<close>.\<close>

theorem accessors_absent_key_witness:
  "configStringValue (context_with (string_config ''true'')) ''other'' = Inr JUndefined
    \<and> configBooleanValue (context_with (string_config ''true'')) ''other'' = Inr False
    \<and> configModeIds (context_with (string_config ''true'')) ''other'' = Inr JUndefined
    \<and> configDevices knows_all (context_with (string_config ''true'')) ''other'' = Inr None"
  using accessors_absent_key [where ctx = "context_with (string_config ''true'')"
      and kvs = "[(''setting'', JArr [JObj [(''stringConfig'', JObj [(''value'', JStr ''true'')])]])]"
      and name = "''other''" and devices_get = knows_all]
  by (simp add: context_with_def string_config_def Object_prototype_names_def)

text \<open>
  A key can be absent from the config map and still be found: \<^verbatim>\<open>constructor\<close> is a member
  every object inherits. The map below has no such key of its own, yet
  \<^verbatim>\<open>this.config['constructor']\<close> is a function, which is truthy and has no element
  \<^verbatim>\<open>0\<close>; reading \<^verbatim>\<open>entry[0].stringConfig\<close> then throws a TypeError instead of returning
  \<^verbatim>\<open>false\<close>.
\<close>

theorem configBooleanValue_inherited_name_throws:
  "config (context_with (string_config ''true'')) = string_config ''true''
   \<and> string_config ''true''
       = JObj [(''setting'', JArr [JObj [(''stringConfig'', JObj [(''value'', JStr ''true'')])]])]
   \<and> map_of [(''setting'', JArr [JObj [(''stringConfig'', JObj [(''value'', JStr ''true'')])]])]
         ''constructor'' = None
   \<and> get_prop (string_config ''true'') ''constructor'' = Inr (JBuiltin ''constructor'')
   \<and> configBooleanValue (context_with (string_config ''true'')) ''constructor''
       = Inl TypeError
   \<and> configBooleanValue (context_with (string_config ''true'')) ''constructor''
       \<noteq> Inr False"
  by (simp add: context_with_def string_config_def configBooleanValue_def first_value_def
      inherited_def Object_prototype_names_def)

text \<open>
  Claim C7, as the code has it. On a context that has a config map,
  \<^verbatim>\<open>configBooleanValue(name)\<close> returns \<^verbatim>\<open>false\<close> when the key is absent from the map and is
  not the name of a member every object inherits; when the key is present and its first
  entry stores the value \<open>v\<close> under \<^verbatim>\<open>stringConfig.value\<close>, it returns \<^verbatim>\<open>true\<close> exactly when
  \<open>v\<close> is the string \<^verbatim>\<open>true\<close>, so \<^verbatim>\<open>false\<close> for every other string.
\<close>

theorem configBooleanValue_exact_true:
  assumes "config ctx = JObj kvs"
  shows "(map_of kvs name = None \<and> name \<notin> set Object_prototype_names
            \<longrightarrow> configBooleanValue ctx name = Inr False)
    \<and> (map_of kvs name = Some entry \<and> first_value entry = Inr v
            \<longrightarrow> configBooleanValue ctx name = Inr (v = JStr ''true''))"
proof (intro conjI impI)
  assume "map_of kvs name = None \<and> name \<notin> set Object_prototype_names"
  then have "get_prop (config ctx) name = Inr JUndefined"
    using assms get_prop_absent [of kvs name] by simp
  then show "configBooleanValue ctx name = Inr False"
    by (simp add: configBooleanValue_def)
next
  assume present: "map_of kvs name = Some entry \<and> first_value entry = Inr v"
  then have "get_prop (config ctx) name = Inr entry"
    using assms by simp
  moreover have "truthy entry"
    using present first_value_truthy by blast
  ultimately show "configBooleanValue ctx name = Inr (v = JStr ''true'')"
    using present by (simp add: configBooleanValue_def)
qed

text \<open>The stored strings \<^verbatim>\<open>true\<close>, \<^verbatim>\<open>false\<close> and \<^verbatim>\<open>TRUE\<close>, and an absent key.\<close>

theorem configBooleanValue_exact_true_witness:
  "configBooleanValue (context_with (string_config ''true'')) ''setting'' = Inr True
   \<and> configBooleanValue (context_with (string_config ''false'')) ''setting'' = Inr False
   \<and> configBooleanValue (context_with (string_config ''TRUE'')) ''setting'' = Inr False
   \<and> configBooleanValue (context_with (string_config ''true'')) ''missing'' = Inr False"
  using configBooleanValue_exact_true
      [where ctx = "context_with (string_config ''true'')" and name = "''setting''"
      and kvs = "[(''setting'', JArr [JObj [(''stringConfig'', JObj [(''value'', JStr ''true'')])]])]"
      and entry = "JArr [JObj [(''stringConfig'', JObj [(''value'', JStr ''true'')])]]"
      and v = "JStr ''true''"]
    configBooleanValue_exact_true
      [where ctx = "context_with (string_config ''false'')" and name = "''setting''"
      and kvs = "[(''setting'', JArr [JObj [(''stringConfig'', JObj [(''value'', JStr ''false'')])]])]"
      and entry = "JArr [JObj [(''stringConfig'', JObj [(''value'', JStr ''false'')])]]"
      and v = "JStr ''false''"]
    configBooleanValue_exact_true
      [where ctx = "context_with (string_config ''TRUE'')" and name = "''setting''"
      and kvs = "[(''setting'', JArr [JObj [(''stringConfig'', JObj [(''value'', JStr ''TRUE'')])]])]"
      and entry = "JArr [JObj [(''stringConfig'', JObj [(''value'', JStr ''TRUE'')])]]"
      and v = "JStr ''TRUE''"]
    configBooleanValue_exact_true
      [where ctx = "context_with (string_config ''true'')" and name = "''missing''"
      and kvs = "[(''setting'', JArr [JObj [(''stringConfig'', JObj [(''value'', JStr ''true'')])]])]"]
  by (simp add: context_with_def string_config_def first_value_string_config
      Object_prototype_names_def)

subsection \<open>Time strings\<close>

lemma constructor_is_Object_empty: "constructor_is_Object (JObj [])"
  by (simp add: constructor_is_Object_def inherited_def Object_prototype_names_def)

text \<open>Only a plain object passes the test that guards the two assignments to the options.\<close>

lemma constructor_is_Object_plain: "constructor_is_Object v \<Longrightarrow> \<exists>kvs. v = JObj kvs"
  by (cases v) (simp_all add: constructor_is_Object_def array_index_def digit_def)

lemma configTimeString_omitted:
  "configDateValue parseDate ctx name = Inr (Some d) \<Longrightarrow>
     configTimeString parseDate formatTime ctx name JUndefined
       = (JUndefined, toLocaleTimeString formatTime d (ctx_locale ctx) default_time_options)"
  by (simp add: configTimeString_def constructor_is_Object_empty default_time_options_def)

lemma configTimeString_empty:
  "configDateValue parseDate ctx name = Inr (Some d) \<Longrightarrow>
     configTimeString parseDate formatTime ctx name (JObj [])
       = (default_time_options,
          toLocaleTimeString formatTime d (ctx_locale ctx) default_time_options)"
  by (simp add: configTimeString_def constructor_is_Object_empty default_time_options_def)

lemma configTimeString_given:
  "configDateValue parseDate ctx name = Inr (Some d) \<Longrightarrow> kvs \<noteq> [] \<Longrightarrow>
     configTimeString parseDate formatTime ctx name (JObj kvs)
       = (JObj kvs, toLocaleTimeString formatTime d (ctx_locale ctx) (JObj kvs))"
  by (simp add: configTimeString_def Let_def)

lemma configDateValue_string_config:
  "configDateValue parseDate (context_with (string_config s)) ''setting''
     = Inr (Some (parseDate (JStr s)))"
  by (simp add: configDateValue_def context_with_def string_config_def
      first_value_string_config new_Date_def)

lemma configDateValue_missing:
  "configDateValue parseDate (context_with (string_config s)) ''missing'' = Inr None"
  by (simp add: configDateValue_def context_with_def string_config_def inherited_def
      Object_prototype_names_def)

text \<open>
  An unparseable date is not absent. \<^verbatim>\<open>configDateValue\<close> returns the invalid \<^verbatim>\<open>Date\<close>
  object, which is truthy, so \<^verbatim>\<open>configTimeString\<close> passes the guard and returns the string
  \<^verbatim>\<open>Invalid Date\<close>, not \<^verbatim>\<open>undefined\<close>.
\<close>

theorem time_string_of_invalid_date:
  "configDateValue no_date (context_with (string_config ''not a date'')) ''setting''
     = Inr (Some InvalidDate)
   \<and> snd (configTimeString no_date clock_format
            (context_with (string_config ''not a date'')) ''setting'' JUndefined)
       = Inr (JStr ''Invalid Date'')
   \<and> snd (configTimeString no_date clock_format
            (context_with (string_config ''not a date'')) ''setting'' JUndefined)
       \<noteq> Inr JUndefined"
  by (simp add: configTimeString_def configDateValue_def context_with_def string_config_def
      first_value_string_config new_Date_def no_date_def constructor_is_Object_def
      inherited_def Object_prototype_names_def toLocaleTimeString_def)

text \<open>
  Claim C3, as the code has it. \<^verbatim>\<open>configTimeString(name, options)\<close> returns \<^verbatim>\<open>undefined\<close>
  when the underlying date is absent (\<^verbatim>\<open>configDateValue\<close> returns \<^verbatim>\<open>undefined\<close>), and then
  leaves the options alone. For an invalid date it returns the string \<^verbatim>\<open>Invalid Date\<close>,
  whether the options are omitted or an object. For a valid date it returns the time
  formatting of that date for the locale of the context: with
  \<^verbatim>\<open>{hour: '2-digit', minute: '2-digit'}\<close> when the options are omitted or empty, and with
  the options given otherwise.
\<close>

theorem configTimeString_result:
  "(configDateValue parseDate ctx name = Inr None \<longrightarrow>
      configTimeString parseDate formatTime ctx name options = (options, Inr JUndefined))
   \<and> (configDateValue parseDate ctx name = Inr (Some InvalidDate) \<longrightarrow>
        snd (configTimeString parseDate formatTime ctx name JUndefined)
          = Inr (JStr ''Invalid Date'')
        \<and> snd (configTimeString parseDate formatTime ctx name (JObj kvs))
          = Inr (JStr ''Invalid Date''))
   \<and> (configDateValue parseDate ctx name = Inr (Some (ValidDate t)) \<longrightarrow>
        snd (configTimeString parseDate formatTime ctx name JUndefined)
          = bind (formatTime (ctx_locale ctx) default_time_options t) (\<lambda>s. Inr (JStr s))
        \<and> snd (configTimeString parseDate formatTime ctx name (JObj []))
          = bind (formatTime (ctx_locale ctx) default_time_options t) (\<lambda>s. Inr (JStr s))
        \<and> (kvs \<noteq> [] \<longrightarrow>
             snd (configTimeString parseDate formatTime ctx name (JObj kvs))
               = bind (formatTime (ctx_locale ctx) (JObj kvs) t) (\<lambda>s. Inr (JStr s))))"
proof (intro conjI impI)
  assume "configDateValue parseDate ctx name = Inr None"
  then show "configTimeString parseDate formatTime ctx name options = (options, Inr JUndefined)"
    by (simp add: configTimeString_def)
next
  assume inv: "configDateValue parseDate ctx name = Inr (Some InvalidDate)"
  show "snd (configTimeString parseDate formatTime ctx name JUndefined)
          = Inr (JStr ''Invalid Date'')"
    by (simp add: configTimeString_omitted [OF inv] toLocaleTimeString_def)
  show "snd (configTimeString parseDate formatTime ctx name (JObj kvs))
          = Inr (JStr ''Invalid Date'')"
  proof (cases "kvs = []")
    case True
    then show ?thesis
      by (simp add: configTimeString_empty [OF inv] toLocaleTimeString_def)
  next
    case False
    then show ?thesis
      by (simp add: configTimeString_given [OF inv] toLocaleTimeString_def)
  qed
next
  assume val: "configDateValue parseDate ctx name = Inr (Some (ValidDate t))"
  show "snd (configTimeString parseDate formatTime ctx name JUndefined)
          = bind (formatTime (ctx_locale ctx) default_time_options t) (\<lambda>s. Inr (JStr s))"
    by (simp add: configTimeString_omitted [OF val] toLocaleTimeString_def)
  show "snd (configTimeString parseDate formatTime ctx name (JObj []))
          = bind (formatTime (ctx_locale ctx) default_time_options t) (\<lambda>s. Inr (JStr s))"
    by (simp add: configTimeString_empty [OF val] toLocaleTimeString_def)
  show "snd (configTimeString parseDate formatTime ctx name (JObj kvs))
          = bind (formatTime (ctx_locale ctx) (JObj kvs) t) (\<lambda>s. Inr (JStr s))"
    if "kvs \<noteq> []"
    using that by (simp add: configTimeString_given [OF val] toLocaleTimeString_def)
qed

text \<open>An absent key, an unparseable date with options, and a valid date without and with
  options.\<close>

theorem configTimeString_result_witness:
  "configTimeString epoch_date clock_format (context_with (string_config ''1970-01-01''))
      ''missing'' JUndefined = (JUndefined, Inr JUndefined)
   \<and> snd (configTimeString no_date clock_format (context_with (string_config ''soon''))
      ''setting'' (JObj [(''hour'', JStr ''numeric'')])) = Inr (JStr ''Invalid Date'')
   \<and> snd (configTimeString epoch_date clock_format (context_with (string_config ''1970-01-01''))
      ''setting'' JUndefined) = Inr (JStr ''12:00 AM'')
   \<and> snd (configTimeString epoch_date clock_format (context_with (string_config ''1970-01-01''))
      ''setting'' (JObj [(''second'', JStr ''numeric'')])) = Inr (JStr ''12:00:00 AM'')"
  using configTimeString_result [where parseDate = epoch_date and formatTime = clock_format
      and ctx = "context_with (string_config ''1970-01-01'')" and name = "''missing''"
      and options = JUndefined]
    configTimeString_result [where parseDate = no_date and formatTime = clock_format
      and ctx = "context_with (string_config ''soon'')" and name = "''setting''"
      and kvs = "[(''hour'', JStr ''numeric'')]"]
    configTimeString_result [where parseDate = epoch_date and formatTime = clock_format
      and ctx = "context_with (string_config ''1970-01-01'')" and name = "''setting''"
      and kvs = "[(''second'', JStr ''numeric'')]" and t = 0]
  by (simp add: configDateValue_string_config configDateValue_missing epoch_date_def
      no_date_def clock_format_def default_time_options_def)

text \<open>
  Claim C10. When the named date value exists and the caller passes an empty plain object
  as options, \<^verbatim>\<open>configTimeString\<close> writes \<^verbatim>\<open>hour\<close> and \<^verbatim>\<open>minute\<close> into that object: after
  the call the argument of the caller is \<^verbatim>\<open>{hour: '2-digit', minute: '2-digit'}\<close>.
\<close>

theorem configTimeString_fills_empty_options:
  assumes "configDateValue parseDate ctx name = Inr (Some d)"
  shows "fst (configTimeString parseDate formatTime ctx name (JObj []))
           = JObj [(''hour'', JStr ''2-digit''), (''minute'', JStr ''2-digit'')]"
  using assms
  by (simp add: configTimeString_def constructor_is_Object_empty)

text \<open>A stored date and an empty options object.\<close>

theorem configTimeString_fills_empty_options_witness:
  "fst (configTimeString epoch_date clock_format (context_with (string_config ''1970-01-01''))
      ''setting'' (JObj []))
     = JObj [(''hour'', JStr ''2-digit''), (''minute'', JStr ''2-digit'')]"
  using configTimeString_fills_empty_options
      [where parseDate = epoch_date and formatTime = clock_format
      and ctx = "context_with (string_config ''1970-01-01'')" and name = "''setting''"
      and d = "ValidDate 0"]
  by (simp add: configDateValue_string_config epoch_date_def)

subsection \<open>Device enrichment\<close>

lemma reasons_of_member: "Rejected e \<in> set ps \<Longrightarrow> reasons_of ps \<noteq> []"
  by (induction ps) (auto split: outcome.splits)

lemma all_rejected_map: "all_rejected (map Rejected es)"
  by (induction es) simp_all

lemma Promise_all_rejected:
  assumes "Rejected e \<in> set ps"
  shows "Promise_all ps \<noteq> [] \<and> all_rejected (Promise_all ps)"
  using reasons_of_member [OF assms] by (simp add: Promise_all_def all_rejected_map)

lemma for_item_lookup:
  assumes "for_item ctx lookup item = Inr p"
    and "path item [''deviceConfig'', ''deviceId''] = Inr ident"
  shows "\<exists>componentId. p = lookup ident componentId"
  using assms
  by (auto simp: for_item_def bind_eq_Inr split: option.splits)

lemma device_promise_rejected:
  "devices_get ident = Rejected e \<Longrightarrow> device_promise devices_get ident c = Rejected e"
  by (simp add: device_promise_def)

lemma device_promise_fulfilled:
  assumes "devices_get ident = Fulfilled device" and "get_prop device ''deviceId'' = Inr d"
  shows "\<exists>n l. device_promise devices_get ident c
           = Fulfilled (JObj [(''deviceId'', d), (''name'', n), (''label'', l),
                              (''componentId'', c)])"
proof -
  obtain n l where "get_prop device ''name'' = Inr n" "get_prop device ''label'' = Inr l"
    using get_prop_total [OF assms(2)] by metis
  then show ?thesis
    using assms by (simp add: device_promise_def settle_def)
qed

lemma device_state_promise_rejected:
  "devices_get ident = Rejected e \<Longrightarrow>
     device_state_promise devices_get devices_getState toString ident c = Rejected e"
  by (simp add: device_state_promise_def device_promise_rejected)

lemma device_state_promise_state_rejected:
  assumes "devices_get ident = Fulfilled device" and "get_prop device ''deviceId'' = Inr d"
    and "devices_getState d = Rejected e"
  shows "device_state_promise devices_get devices_getState toString ident c = Rejected e"
proof -
  obtain n l where "device_promise devices_get ident c
      = Fulfilled (JObj [(''deviceId'', d), (''name'', n), (''label'', l), (''componentId'', c)])"
    using device_promise_fulfilled [where devices_get = devices_get and ident = ident]
      assms(1,2) by blast
  then show ?thesis
    using assms(3) by (simp add: device_state_promise_def)
qed

lemma aggregate_fails:
  assumes "\<And>list. map_e (for_item ctx lookup) items = Inr list \<Longrightarrow> Rejected e \<in> set list"
  shows "fails_entirely
           (bind (map_e (for_item ctx lookup) items) (\<lambda>list. Inr (Some (Promise_all list))))"
proof (cases "map_e (for_item ctx lookup) items")
  case (Inl err)
  then show ?thesis by (simp add: fails_entirely_def)
next
  case (Inr list)
  with assms have "Rejected e \<in> set list" by simp
  from Promise_all_rejected [OF this] Inr show ?thesis
    by (simp add: fails_entirely_def)
qed

lemma rejected_lookup_in_list:
  assumes "item \<in> set items" and "path item [''deviceConfig'', ''deviceId''] = Inr ident"
    and "\<And>c. lookup ident c = Rejected e"
    and "map_e (for_item ctx lookup) items = Inr list"
  shows "Rejected e \<in> set list"
proof -
  obtain p where p: "p \<in> set list" "for_item ctx lookup item = Inr p"
    using map_e_Inr_member [OF assms(4,1)] by blast
  from for_item_lookup [OF p(2) assms(2)] assms(3) have "p = Rejected e" by auto
  with p(1) show ?thesis by simp
qed

text \<open>
  Claim C4. Let the config key hold an array of device-config entries, and let one of them
  name a device. If the remote lookup of that device is rejected, both \<^verbatim>\<open>configDevices\<close>
  and \<^verbatim>\<open>configDevicesWithState\<close> fail as a whole; if the lookup of the device succeeds and
  the lookup of its state is rejected, \<^verbatim>\<open>configDevicesWithState\<close> fails as a whole,
  whatever the other lookups do. Failing as a whole: the call throws, or its promise can only
  be rejected; no list of results, partial or not, is delivered.
\<close>

theorem lookup_failure_fails_aggregate:
  assumes "config ctx = JObj kvs" and "map_of kvs name = Some (JArr items)"
    and "item \<in> set items" and "path item [''deviceConfig'', ''deviceId''] = Inr ident"
  shows "(devices_get ident = Rejected e \<longrightarrow>
            fails_entirely (configDevices devices_get ctx name)
          \<and> fails_entirely
               (configDevicesWithState devices_get devices_getState toString ctx name))
    \<and> (devices_get ident = Fulfilled device \<and> get_prop device ''deviceId'' = Inr d
          \<and> devices_getState d = Rejected e \<longrightarrow>
            fails_entirely
              (configDevicesWithState devices_get devices_getState toString ctx name))"
proof (intro conjI impI)
  have entry: "get_prop (config ctx) name = Inr (JArr items)"
    using assms(1,2) by simp
  have devices: "configDevices devices_get ctx name
      = bind (map_e (for_item ctx (device_promise devices_get)) items)
          (\<lambda>list. Inr (Some (Promise_all list)))"
    by (simp add: configDevices_def entry)
  have devices_state: "configDevicesWithState devices_get devices_getState toString ctx name
      = bind (map_e (for_item ctx
                (device_state_promise devices_get devices_getState toString)) items)
          (\<lambda>list. Inr (Some (Promise_all list)))"
    by (simp add: configDevicesWithState_def entry)
  {
    assume rej: "devices_get ident = Rejected e"
    have "\<And>c. device_promise devices_get ident c = Rejected e"
      by (rule device_promise_rejected) (rule rej)
    then have "\<And>list. map_e (for_item ctx (device_promise devices_get)) items = Inr list
        \<Longrightarrow> Rejected e \<in> set list"
      by (rule rejected_lookup_in_list [OF assms(3,4)])
    then show "fails_entirely (configDevices devices_get ctx name)"
      unfolding devices by (rule aggregate_fails)
    have "\<And>c. device_state_promise devices_get devices_getState toString ident c
        = Rejected e"
      by (rule device_state_promise_rejected) (rule rej)
    then have "\<And>list. map_e (for_item ctx
          (device_state_promise devices_get devices_getState toString)) items = Inr list
        \<Longrightarrow> Rejected e \<in> set list"
      by (rule rejected_lookup_in_list [OF assms(3,4)])
    then show "fails_entirely
        (configDevicesWithState devices_get devices_getState toString ctx name)"
      unfolding devices_state by (rule aggregate_fails)
  }
  {
    assume state: "devices_get ident = Fulfilled device \<and> get_prop device ''deviceId'' = Inr d
      \<and> devices_getState d = Rejected e"
    have "\<And>c. device_state_promise devices_get devices_getState toString ident c
        = Rejected e"
      using state device_state_promise_state_rejected by blast
    then have "\<And>list. map_e (for_item ctx
          (device_state_promise devices_get devices_getState toString)) items = Inr list
        \<Longrightarrow> Rejected e \<in> set list"
      by (rule rejected_lookup_in_list [OF assms(3,4)])
    then show "fails_entirely
        (configDevicesWithState devices_get devices_getState toString ctx name)"
      unfolding devices_state by (rule aggregate_fails)
  }
qed

lemma sensors_entry:
  "map_of [(''sensors'',
       JArr [JObj [(''deviceConfig'',
               JObj [(''deviceId'', JStr ''d1''), (''componentId'', JStr ''main'')])],
             JObj [(''deviceConfig'',
               JObj [(''deviceId'', JStr ''d2''), (''componentId'', JStr ''main'')])]])]
     ''sensors''
   = Some (JArr [JObj [(''deviceConfig'',
               JObj [(''deviceId'', JStr ''d1''), (''componentId'', JStr ''main'')])],
             JObj [(''deviceConfig'',
               JObj [(''deviceId'', JStr ''d2''), (''componentId'', JStr ''main'')])]])"
  by simp

text \<open>Two devices: the service does not know the second; or it knows both and the state
  service is down.\<close>

theorem lookup_failure_fails_aggregate_witness:
  "fails_entirely (configDevices knows_first (authenticated_with device_config) ''sensors'')
   \<and> fails_entirely (configDevicesWithState knows_all state_down no_string
        (authenticated_with device_config) ''sensors'')"
  using lookup_failure_fails_aggregate
      [where ctx = "authenticated_with device_config" and name = "''sensors''"
      and item = "JObj [(''deviceConfig'',
               JObj [(''deviceId'', JStr ''d2''), (''componentId'', JStr ''main'')])]"
      and ident = "JStr ''d2''" and devices_get = knows_first
      and e = "Thrown (JStr ''404'')", OF _ sensors_entry]
    lookup_failure_fails_aggregate
      [where ctx = "authenticated_with device_config" and name = "''sensors''"
      and item = "JObj [(''deviceConfig'',
               JObj [(''deviceId'', JStr ''d2''), (''componentId'', JStr ''main'')])]"
      and ident = "JStr ''d2''" and devices_get = knows_all and devices_getState = state_down
      and toString = no_string and device = "device_named (JStr ''d2'')" and d = "JStr ''d2''"
      and e = "Thrown (JStr ''503'')", OF _ sensors_entry]
  by (simp add: authenticated_with_def build_api_def context_with_def device_config_def
      knows_first_def knows_all_def state_down_def device_named_def)

end
